theory Spec2Isabelle
  imports Complex_Main
begin

section \<open>Python values at the HTTP boundary\<close>

text \<open>
  Both servers read the request with \<^verbatim>\<open>request.get_json()\<close>, so a handler sees an
  arbitrary parsed JSON document, not a typed record. The handlers never check a type:
  every operation they apply to the document is modelled with the exception Python raises
  when the operand has the wrong type.

  \<^item> \<open>JInt\<close> is a Python \<^verbatim>\<open>int\<close>; \<open>JFloat q\<close> is a finite \<^verbatim>\<open>float\<close> whose exact value is
    the rational \<open>q\<close>. The not-a-number and infinite floats are not represented.
  \<^item> \<open>JStr\<close> is a \<^verbatim>\<open>str\<close>, one \<open>char\<close> per code point; code points are below 256.
  \<^item> \<open>JObj\<close> is a \<^verbatim>\<open>dict\<close> with string keys in insertion order; a lookup takes the first
    entry of a key.
\<close>

datatype json =
    JNull
  | JBool bool
  | JInt int
  | JFloat rat
  | JStr string
  | JArr "json list"
  | JObj "(string \<times> json) list"

text \<open>
  The exceptions that reach the \<^verbatim>\<open>except Exception as e\<close> clause of a handler.
  \<open>External\<close> is an exception raised by a collaborator (the web framework, the synthesis
  engine, the audio encoder) with its message.
\<close>

datatype pyexn = TypeError | AttributeError | KeyError | External string

text \<open>
  A response is a body and an HTTP status. \<open>JsonifyExn e\<close> is
  \<^verbatim>\<open>jsonify({'error': str(e)})\<close>; \<open>SendFile f mimetype as_attachment download_name\<close> is
  \<^verbatim>\<open>send_file(temp_file.name, ...)\<close>, where \<open>f\<close> is the position of the temporary file among
  the temporary files on disk.
\<close>

datatype body =
    Jsonify json
  | JsonifyExn pyexn
  | SendFile nat string bool string

datatype response = Response body nat

fun status_code :: "response \<Rightarrow> nat" where
  "status_code (Response b code) = code"

text \<open>
  The three ways a block of a handler ends: an exception, a \<^verbatim>\<open>return\<close>, or falling
  through to the next block with the values it bound.
\<close>

datatype 'a step = Raise pyexn | Return response | Continue 'a

definition error_response :: "string \<Rightarrow> nat \<Rightarrow> response" where
  "error_response message code = Response (Jsonify (JObj [(''error'', JStr message)])) code"

definition caught :: "pyexn \<Rightarrow> response" where
  "caught e = Response (JsonifyExn e) 500"

subsection \<open>Truth value, membership, subscripts\<close>

fun truthy :: "json \<Rightarrow> bool" where
  "truthy JNull = False"
| "truthy (JBool b) = b"
| "truthy (JInt i) = (i \<noteq> 0)"
| "truthy (JFloat q) = (q \<noteq> 0)"
| "truthy (JStr s) = (s \<noteq> [])"
| "truthy (JArr xs) = (xs \<noteq> [])"
| "truthy (JObj kv) = (kv \<noteq> [])"

fun starts_with :: "string \<Rightarrow> string \<Rightarrow> bool" where
  "starts_with s [] = True"
| "starts_with [] (p # ps) = False"
| "starts_with (c # s) (p # ps) = (c = p \<and> starts_with s ps)"

fun substring_of :: "string \<Rightarrow> string \<Rightarrow> bool" where
  "substring_of sub [] = (sub = [])"
| "substring_of sub (c # s) = (starts_with (c # s) sub \<or> substring_of sub s)"

text \<open>
  \<^verbatim>\<open>key in data\<close> for a string \<open>key\<close>: a key test on a dict, an element test on a list,
  a substring test on a string, and a \<^verbatim>\<open>TypeError\<close> on a number, a boolean or \<^verbatim>\<open>None\<close>.
\<close>

fun py_in :: "string \<Rightarrow> json \<Rightarrow> pyexn + bool" where
  "py_in k (JObj kv) = Inr (k \<in> fst ` set kv)"
| "py_in k (JArr xs) = Inr (JStr k \<in> set xs)"
| "py_in k (JStr s) = Inr (substring_of k s)"
| "py_in k JNull = Inl TypeError"
| "py_in k (JBool b) = Inl TypeError"
| "py_in k (JInt i) = Inl TypeError"
| "py_in k (JFloat q) = Inl TypeError"

text \<open>\<^verbatim>\<open>data[key]\<close> for a string \<open>key\<close>: only a dict accepts a string subscript.\<close>

fun py_getitem :: "json \<Rightarrow> string \<Rightarrow> pyexn + json" where
  "py_getitem (JObj kv) k = (case map_of kv k of Some v \<Rightarrow> Inr v | None \<Rightarrow> Inl KeyError)"
| "py_getitem JNull k = Inl TypeError"
| "py_getitem (JBool b) k = Inl TypeError"
| "py_getitem (JInt i) k = Inl TypeError"
| "py_getitem (JFloat q) k = Inl TypeError"
| "py_getitem (JStr s) k = Inl TypeError"
| "py_getitem (JArr xs) k = Inl TypeError"

text \<open>\<^verbatim>\<open>data.get(key, default)\<close>: only a dict has the method.\<close>

fun py_get :: "json \<Rightarrow> string \<Rightarrow> json \<Rightarrow> pyexn + json" where
  "py_get (JObj kv) k d = Inr (case map_of kv k of Some v \<Rightarrow> v | None \<Rightarrow> d)"
| "py_get JNull k d = Inl AttributeError"
| "py_get (JBool b) k d = Inl AttributeError"
| "py_get (JInt i) k d = Inl AttributeError"
| "py_get (JFloat q) k d = Inl AttributeError"
| "py_get (JStr s) k d = Inl AttributeError"
| "py_get (JArr xs) k d = Inl AttributeError"

text \<open>
  \<^verbatim>\<open>d[key] = value\<close> on an insertion-ordered dict: an existing key keeps its place,
  a new key goes to the end.
\<close>

fun dict_set :: "string \<Rightarrow> 'v \<Rightarrow> (string \<times> 'v) list \<Rightarrow> (string \<times> 'v) list" where
  "dict_set k v [] = [(k, v)]"
| "dict_set k v (p # ps) = (if fst p = k then (k, v) # ps else p # dict_set k v ps)"

fun py_setitem :: "json \<Rightarrow> string \<Rightarrow> json \<Rightarrow> pyexn + json" where
  "py_setitem (JObj kv) k v = Inr (JObj (dict_set k v kv))"
| "py_setitem JNull k v = Inl TypeError"
| "py_setitem (JBool b) k v = Inl TypeError"
| "py_setitem (JInt i) k v = Inl TypeError"
| "py_setitem (JFloat q) k v = Inl TypeError"
| "py_setitem (JStr s) k v = Inl TypeError"
| "py_setitem (JArr xs) k v = Inl TypeError"

subsection \<open>Strings\<close>

text \<open>
  \<^verbatim>\<open>str.isspace\<close> on the code points below 256: tab to carriage return, the four
  separators U+001C to U+001F, space, U+0085 and U+00A0.
\<close>

definition is_space :: "char \<Rightarrow> bool" where
  "is_space c = (of_char c \<in> {9, 10, 11, 12, 13, 28, 29, 30, 31, 32, 133, 160 :: nat})"

definition strip :: "string \<Rightarrow> string" where
  "strip s = rev (dropWhile is_space (rev (dropWhile is_space s)))"

subsection \<open>Numbers\<close>

text \<open>
  \<^verbatim>\<open>x < c\<close> and \<^verbatim>\<open>x > c\<close> against a float constant \<open>c\<close>: Python compares an int, a float
  or a boolean (a subclass of int) with a float by exact value, and raises a
  \<^verbatim>\<open>TypeError\<close> for every other operand.
\<close>

fun py_number :: "json \<Rightarrow> rat option" where
  "py_number (JInt i) = Some (of_int i)"
| "py_number (JFloat q) = Some q"
| "py_number (JBool b) = Some (if b then 1 else 0)"
| "py_number JNull = None"
| "py_number (JStr s) = None"
| "py_number (JArr xs) = None"
| "py_number (JObj kv) = None"

definition py_less :: "json \<Rightarrow> rat \<Rightarrow> pyexn + bool" where
  "py_less x c = (case py_number x of None \<Rightarrow> Inl TypeError | Some q \<Rightarrow> Inr (q < c))"

definition py_greater :: "json \<Rightarrow> rat \<Rightarrow> pyexn + bool" where
  "py_greater x c = (case py_number x of None \<Rightarrow> Inl TypeError | Some q \<Rightarrow> Inr (q > c))"

subsection \<open>Formatting\<close>

function str_nat :: "nat \<Rightarrow> string" where
  "str_nat n = (if n < 10 then [char_of (48 + n)] else str_nat (n div 10) @ [char_of (48 + n mod 10)])"
  by pat_completeness auto
termination
  by (relation "measure (\<lambda>n. n)") auto

definition str_int :: "int \<Rightarrow> string" where
  "str_int i = (if i < 0 then CHR ''-'' # str_nat (nat (- i)) else str_nat (nat i))"

text \<open>
  \<^verbatim>\<open>repr\<close> of a string, on code points below 256: double quotes when the string has a
  single quote and no double quote, a backslash before the quote and the backslash,
  the escapes of tab, newline and carriage return, and \<^verbatim>\<open>\xNN\<close> for the other
  non-printable code points.
\<close>

definition hex2 :: "nat \<Rightarrow> string" where
  "hex2 n = [''0123456789abcdef'' ! (n div 16 mod 16), ''0123456789abcdef'' ! (n mod 16)]"

definition repr_char :: "char \<Rightarrow> char \<Rightarrow> string" where
  "repr_char quote c =
     (let n = (of_char c :: nat) in
      if c = quote \<or> c = CHR 0x5C then [CHR 0x5C, c]
      else if c = CHR 0x09 then [CHR 0x5C, CHR ''t'']
      else if c = CHR 0x0A then [CHR 0x5C, CHR ''n'']
      else if c = CHR 0x0D then [CHR 0x5C, CHR ''r'']
      else if n < 32 \<or> n = 127 then [CHR 0x5C, CHR ''x''] @ hex2 n
      else if n < 127 then [c]
      else if n \<le> 160 \<or> n = 173 then [CHR 0x5C, CHR ''x''] @ hex2 n
      else [c])"

definition py_repr_str :: "string \<Rightarrow> string" where
  "py_repr_str s =
     (let quote = (if CHR 0x27 \<in> set s \<and> CHR 0x22 \<notin> set s then CHR 0x22 else CHR 0x27)
      in [quote] @ concat (map (repr_char quote) s) @ [quote])"

fun join :: "string \<Rightarrow> string list \<Rightarrow> string" where
  "join sep [] = []"
| "join sep [x] = x"
| "join sep (x # y # ys) = x @ sep @ join sep (y # ys)"

text \<open>\<^verbatim>\<open>str\<close> of a list of strings, as an f-string formats \<^verbatim>\<open>list(pipelines.keys())\<close>.\<close>

definition py_str_list :: "string list \<Rightarrow> string" where
  "py_str_list ks = ''['' @ join '', '' (map py_repr_str ks) @ '']''"

text \<open>
  What an f-string field \<^verbatim>\<open>{accent}\<close> inserts for a hashable value. The text of a float is
  the shortest decimal that reads back as the same float; it is not a function of the
  modelled rational alone and is taken from outside (\<open>float_repr\<close>). Lists and dicts are
  never formatted by the handlers: the membership test before the f-string raises on them.
\<close>

fun py_format :: "(rat \<Rightarrow> string) \<Rightarrow> json \<Rightarrow> string" where
  "py_format float_repr (JStr s) = s"
| "py_format float_repr JNull = ''None''"
| "py_format float_repr (JBool b) = (if b then ''True'' else ''False'')"
| "py_format float_repr (JInt i) = str_int i"
| "py_format float_repr (JFloat q) = float_repr q"
| "py_format float_repr (JArr xs) = []"
| "py_format float_repr (JObj kv) = []"

section \<open>Collaborators and server state\<close>

text \<open>
  A synthesis engine is a loaded \<^verbatim>\<open>KPipeline\<close>. Calling it with a text, a voice and a
  speed and iterating the generator to its end either raises or yields the finite list of
  (graphemes, phonemes, audio) triples; an audio chunk is a list of samples.
\<close>

type_synonym 's engine = "string \<Rightarrow> json \<Rightarrow> json \<Rightarrow> pyexn + (string \<times> string \<times> 's list) list"

text \<open>
  What a handler takes from outside the source file while it serves one request:
  \<^item> \<open>sf_write\<close>: \<^verbatim>\<open>soundfile.write\<close>, the encoded bytes of a waveform at a sample rate, or
    the exception it raises;
  \<^item> \<open>b64encode\<close>: \<^verbatim>\<open>base64.b64encode(...).decode('utf-8')\<close>;
  \<^item> \<open>uuid4_hex\<close>: the value of \<^verbatim>\<open>uuid.uuid4().hex\<close> drawn for this request;
  \<^item> \<open>now_isoformat\<close>: \<^verbatim>\<open>datetime.now().isoformat()\<close>;
  \<^item> \<open>float_repr\<close>: the text of a float;
  \<^item> \<open>json_attr_assign\<close>: what the statement \<^verbatim>\<open>request.json = data\<close> does on the
    framework's request object: \<open>None\<close> when the object accepts the assignment,
    \<open>Some e\<close> when it raises \<open>e\<close>. Werkzeug declares \<^verbatim>\<open>json\<close> on its request class as a
    property without a setter, so under Flask the value is \<open>Some AttributeError\<close>.
\<close>

record 's externals =
  sf_write :: "'s list \<Rightarrow> nat \<Rightarrow> pyexn + string"
  b64encode :: "string \<Rightarrow> string"
  uuid4_hex :: string
  now_isoformat :: string
  float_repr :: "rat \<Rightarrow> string"
  json_attr_assign :: "pyexn option"

text \<open>
  The request object. \<open>get_json\<close> is the outcome of \<^verbatim>\<open>request.get_json()\<close>: the exception
  it raises on a body it cannot parse, or the parsed document, \<^verbatim>\<open>None\<close> being \<open>JNull\<close>.
  The framework caches the parsed document, so every call in one request returns the same
  object.
\<close>

record request =
  get_json :: "pyexn + json"

text \<open>
  The part of the world a handler can change: the temporary files on disk (their contents,
  in creation order) and the calls made to a synthesis engine (text, voice, speed).
\<close>

record world =
  tmp_files :: "string list"
  engine_calls :: "(string \<times> json \<times> json) list"

text \<open>
  \<^verbatim>\<open>kakora_server_lock.py\<close> keeps the module-level dict \<^verbatim>\<open>pipelines\<close>, from accent key to
  engine, in insertion order. \<^verbatim>\<open>app.py\<close> keeps the module-level \<^verbatim>\<open>pipeline\<close>, \<^verbatim>\<open>None\<close>
  until \<^verbatim>\<open>initialize_pipeline\<close> has loaded the engine.
\<close>

record 's kakora_state = world +
  pipelines :: "(string \<times> 's engine) list"

record 's app_state = world +
  pipeline :: "'s engine option"

definition VOICE :: string where
  "VOICE = ''af_heart''"

section \<open>Shared blocks of the synthesis handlers\<close>

text \<open>Sequencing: an operation that raises ends the block with its exception.\<close>

fun attempt :: "pyexn + 'a \<Rightarrow> ('a \<Rightarrow> 'b step) \<Rightarrow> 'b step" where
  "attempt (Inl e) f = Raise e"
| "attempt (Inr x) f = f x"

text \<open>
  \<^verbatim>\<open>accent not in pipelines\<close> followed by \<^verbatim>\<open>pipelines[accent]\<close>. A list or a dict is not
  hashable and the membership test raises; a key of another type than \<^verbatim>\<open>str\<close> is hashable
  and equal to no key of the pool. The result is \<open>None\<close> when the accent is not in the pool.
\<close>

fun pool_lookup :: "json \<Rightarrow> (string \<times> 'e) list \<Rightarrow> pyexn + 'e option" where
  "pool_lookup (JStr a) pool = Inr (map_of pool a)"
| "pool_lookup JNull pool = Inr None"
| "pool_lookup (JBool b) pool = Inr None"
| "pool_lookup (JInt i) pool = Inr None"
| "pool_lookup (JFloat q) pool = Inr None"
| "pool_lookup (JArr xs) pool = Inl TypeError"
| "pool_lookup (JObj kv) pool = Inl TypeError"

text \<open>
  The concatenation block, the same in the three synthesis handlers:
  \<^verbatim>\<open>audio_segments[0]\<close> for one segment, \<^verbatim>\<open>np.concatenate(audio_segments)\<close> otherwise.
  It runs on a non-empty list only.
\<close>

definition final_audio :: "'s list list \<Rightarrow> 's list" where
  "final_audio audio_segments =
     (if length audio_segments = 1 then audio_segments ! 0 else concat audio_segments)"

text \<open>
  The blocks "Generate audio", "Collect all audio segments" and "Concatenate audio
  segments": the engine is called and its generator drained, the call is recorded, an empty
  list of segments returns the error of status 500.
\<close>

definition synthesize ::
  "'s engine \<Rightarrow> string \<Rightarrow> json \<Rightarrow> json \<Rightarrow> 'w world_scheme \<Rightarrow> 's list step \<times> 'w world_scheme" where
  "synthesize engine text voice speed st =
     (let st1 = st\<lparr>engine_calls := engine_calls st @ [(text, voice, speed)]\<rparr> in
      case engine text voice speed of
        Inl e \<Rightarrow> (Raise e, st1)
      | Inr generator \<Rightarrow>
          (let audio_segments = map (\<lambda>(gs, ps, audio). audio) generator in
           if audio_segments = [] then (Return (error_response ''No audio generated'' 500), st1)
           else (Continue (final_audio audio_segments), st1)))"

text \<open>
  The blocks "Create temporary file" and "Return audio file" of the two \<^verbatim>\<open>/tts\<close>
  handlers. \<^verbatim>\<open>NamedTemporaryFile(delete=False, suffix='.wav')\<close> creates an empty file that
  nothing deletes; \<^verbatim>\<open>sf.write\<close> fills it.
\<close>

definition send_wav_file ::
  "'s externals \<Rightarrow> 's list \<Rightarrow> string \<Rightarrow> 'w world_scheme \<Rightarrow> response \<times> 'w world_scheme" where
  "send_wav_file ext audio label st =
     (let temp_file = length (tmp_files st);
          st1 = st\<lparr>tmp_files := tmp_files st @ [[]]\<rparr>
      in case sf_write ext audio 24000 of
           Inl e \<Rightarrow> (caught e, st1)
         | Inr wav \<Rightarrow>
             (Response (SendFile temp_file ''audio/wav'' True
                 (''kokoro_'' @ label @ ''_'' @ take 8 (uuid4_hex ext) @ ''.wav'')) 200,
              st1\<lparr>tmp_files := (tmp_files st1)[temp_file := wav]\<rparr>))"

section \<open>The multi-voice server, \<^verbatim>\<open>kakora_server_lock.py\<close>\<close>

definition accent_configs :: "(string \<times> string \<times> string) list" where
  "accent_configs =
     [(''british'', ''b'', ''British English''),
      (''american'', ''a'', ''American English''),
      (''spanish'', ''e'', ''Spanish''),
      (''french'', ''f'', ''French''),
      (''italian'', ''i'', ''Italian'')]"

text \<open>
  \<^verbatim>\<open>initialize_pipelines\<close>: \<open>KPipeline\<close> is the engine constructor, which returns the engine
  of a language code or raises; an accent whose engine fails to load is skipped.
\<close>

fun load_pipelines ::
  "(string \<Rightarrow> pyexn + 's engine) \<Rightarrow> (string \<times> string \<times> string) list \<Rightarrow>
   (string \<times> 's engine) list \<Rightarrow> (string \<times> 's engine) list" where
  "load_pipelines KPipeline [] pool = pool"
| "load_pipelines KPipeline ((accent, lang_code, name) # configs) pool =
     load_pipelines KPipeline configs
       (case KPipeline lang_code of Inl e \<Rightarrow> pool | Inr p \<Rightarrow> dict_set accent p pool)"

definition initialize_pipelines ::
  "(string \<Rightarrow> pyexn + 's engine) \<Rightarrow> 's kakora_state \<Rightarrow> 's kakora_state" where
  "initialize_pipelines KPipeline st =
     st\<lparr>pipelines := load_pipelines KPipeline accent_configs (pipelines st)\<rparr>"

definition kakora_health_check ::
  "'s externals \<Rightarrow> 's kakora_state \<Rightarrow> response \<times> 's kakora_state" where
  "kakora_health_check ext st =
     (Response (Jsonify (JObj
        [(''status'', JStr ''healthy''),
         (''model'', JStr ''Kokoro-82M''),
         (''device'', JStr ''CPU''),
         (''available_accents'', JArr (map (\<lambda>(accent, p). JStr accent) (pipelines st))),
         (''timestamp'', JStr (now_isoformat ext))])) 200, st)"

definition accent_info :: "(string \<times> json) list" where
  "accent_info =
     [(''british'', JObj [(''name'', JStr ''British English''), (''lang_code'', JStr ''b'')]),
      (''american'', JObj [(''name'', JStr ''American English''), (''lang_code'', JStr ''a'')]),
      (''spanish'', JObj [(''name'', JStr ''Spanish''), (''lang_code'', JStr ''e'')]),
      (''french'', JObj [(''name'', JStr ''French''), (''lang_code'', JStr ''f'')]),
      (''italian'', JObj [(''name'', JStr ''Italian''), (''lang_code'', JStr ''i'')])]"

fun available_accents :: "string list \<Rightarrow> (string \<times> json) list \<Rightarrow> (string \<times> json) list" where
  "available_accents [] acc = acc"
| "available_accents (accent # accents) acc =
     available_accents accents
       (case map_of accent_info accent of None \<Rightarrow> acc | Some info \<Rightarrow> dict_set accent info acc)"

definition get_accents :: "'s kakora_state \<Rightarrow> response \<times> 's kakora_state" where
  "get_accents st =
     (Response (Jsonify (JObj
        [(''accents'', JObj (available_accents (map fst (pipelines st)) [])),
         (''default'', JStr ''british'')])) 200, st)"

definition get_voices :: "'s kakora_state \<Rightarrow> response \<times> 's kakora_state" where
  "get_voices st =
     (Response (Jsonify (JObj
        [(''voices'', JObj
           [(''female'', JArr (map JStr [''af_heart'', ''af_allison'', ''af_monica'', ''af_sara''])),
            (''male'', JArr (map JStr [''am_aaron'', ''am_eddie'', ''am_harold'', ''am_louis'', ''am_mike''])),
            (''other'', JArr (map JStr [''af_andrew'']))]),
         (''default'', JStr ''af_allison''),
         (''note'', JStr ''All voices work with all accents'')])) 200, st)"

text \<open>
  The block "Get request data" of \<^verbatim>\<open>text_to_speech\<close> and \<^verbatim>\<open>text_to_speech_base64\<close>:
  the missing-text test, then the four fields with their defaults.
\<close>

definition kakora_request_data :: "request \<Rightarrow> (json \<times> json \<times> json \<times> json) step" where
  "kakora_request_data req =
     attempt (get_json req) (\<lambda>data.
       if \<not> truthy data then Return (error_response ''Missing text parameter'' 400)
       else attempt (py_in ''text'' data) (\<lambda>has_text.
         if \<not> has_text then Return (error_response ''Missing text parameter'' 400)
         else attempt (py_getitem data ''text'') (\<lambda>text.
           attempt (py_get data ''accent'' (JStr ''british'')) (\<lambda>accent.
           attempt (py_get data ''voice'' (JStr ''af_heart'')) (\<lambda>voice.
           attempt (py_get data ''speed'' (JFloat 1)) (\<lambda>speed.
             Continue (text, accent, voice, speed)))))))"

text \<open>
  The block "Validate parameters" and the pool lookup of \<^verbatim>\<open>text_to_speech\<close>: empty text,
  text length, accent. There is no test of the speed.
\<close>

definition kakora_tts_validate ::
  "'s externals \<Rightarrow> (string \<times> 's engine) list \<Rightarrow> json \<Rightarrow> json \<Rightarrow> (string \<times> 's engine) step" where
  "kakora_tts_validate ext pool text accent =
     (case text of
        JStr t \<Rightarrow>
          if strip t = [] then Return (error_response ''Text cannot be empty'' 400)
          else if length t > 5000 then
            Return (error_response ''Text too long (max 5000 characters)'' 400)
          else attempt (pool_lookup accent pool) (\<lambda>found.
            case found of
              None \<Rightarrow>
                Return (error_response
                  (''Accent '' @ [CHR 0x22] @ py_format (float_repr ext) accent @ [CHR 0x22]
                   @ '' not available. Available: '' @ py_str_list (map fst pool)) 400)
            | Some p \<Rightarrow> Continue (t, p))
      | _ \<Rightarrow> Raise AttributeError)"

definition kakora_text_to_speech ::
  "'s externals \<Rightarrow> request \<Rightarrow> 's kakora_state \<Rightarrow> response \<times> 's kakora_state" where
  "kakora_text_to_speech ext req st =
     (case kakora_request_data req of
        Raise e \<Rightarrow> (caught e, st)
      | Return r \<Rightarrow> (r, st)
      | Continue (text, accent, voice, speed) \<Rightarrow>
          (case kakora_tts_validate ext (pipelines st) text accent of
             Raise e \<Rightarrow> (caught e, st)
           | Return r \<Rightarrow> (r, st)
           | Continue (t, p) \<Rightarrow>
               (case synthesize p t voice speed st of
                  (Raise e, st1) \<Rightarrow> (caught e, st1)
                | (Return r, st1) \<Rightarrow> (r, st1)
                | (Continue audio, st1) \<Rightarrow>
                    send_wav_file ext audio (py_format (float_repr ext) accent) st1)))"

text \<open>
  \<^verbatim>\<open>british_tts\<close>. A falsy document is replaced by a new dict, which then is not the
  document the request object holds. Otherwise \<^verbatim>\<open>data['accent'] = 'british'\<close> changes
  the very object that \<^verbatim>\<open>request.get_json()\<close> returns to \<^verbatim>\<open>text_to_speech\<close>. The
  assignment \<^verbatim>\<open>request.json = data\<close> comes before the call of \<^verbatim>\<open>text_to_speech\<close>.
\<close>

definition british_tts ::
  "'s externals \<Rightarrow> request \<Rightarrow> 's kakora_state \<Rightarrow> response \<times> 's kakora_state" where
  "british_tts ext req st =
     (case get_json req of
        Inl e \<Rightarrow> (caught e, st)
      | Inr data \<Rightarrow>
          (case (if \<not> truthy data then Inr req
                 else case py_setitem data ''accent'' (JStr ''british'') of
                        Inl e \<Rightarrow> Inl e
                      | Inr data' \<Rightarrow> Inr (req\<lparr>get_json := Inr data'\<rparr>)) of
             Inl e \<Rightarrow> (caught e, st)
           | Inr req' \<Rightarrow>
               (case json_attr_assign ext of
                  Some e \<Rightarrow> (caught e, st)
                | None \<Rightarrow> kakora_text_to_speech ext req' st)))"

text \<open>
  The validation of \<^verbatim>\<open>text_to_speech_base64\<close>: empty text and accent. There is no test
  of the text length or of the speed, and the accent message does not list the pool.
\<close>

definition kakora_base64_validate ::
  "'s externals \<Rightarrow> (string \<times> 's engine) list \<Rightarrow> json \<Rightarrow> json \<Rightarrow> (string \<times> 's engine) step" where
  "kakora_base64_validate ext pool text accent =
     (case text of
        JStr t \<Rightarrow>
          if strip t = [] then Return (error_response ''Text cannot be empty'' 400)
          else attempt (pool_lookup accent pool) (\<lambda>found.
            case found of
              None \<Rightarrow>
                Return (error_response
                  (''Accent '' @ [CHR 0x22] @ py_format (float_repr ext) accent @ [CHR 0x22]
                   @ '' not available'') 400)
            | Some p \<Rightarrow> Continue (t, p))
      | _ \<Rightarrow> Raise AttributeError)"

definition kakora_text_to_speech_base64 ::
  "'s externals \<Rightarrow> request \<Rightarrow> 's kakora_state \<Rightarrow> response \<times> 's kakora_state" where
  "kakora_text_to_speech_base64 ext req st =
     (case kakora_request_data req of
        Raise e \<Rightarrow> (caught e, st)
      | Return r \<Rightarrow> (r, st)
      | Continue (text, accent, voice, speed) \<Rightarrow>
          (case kakora_base64_validate ext (pipelines st) text accent of
             Raise e \<Rightarrow> (caught e, st)
           | Return r \<Rightarrow> (r, st)
           | Continue (t, p) \<Rightarrow>
               (case synthesize p t voice speed st of
                  (Raise e, st1) \<Rightarrow> (caught e, st1)
                | (Return r, st1) \<Rightarrow> (r, st1)
                | (Continue audio, st1) \<Rightarrow>
                    (case sf_write ext audio 24000 of
                       Inl e \<Rightarrow> (caught e, st1)
                     | Inr wav \<Rightarrow>
                         (Response (Jsonify (JObj
                            [(''audio_base64'', JStr (b64encode ext wav)),
                             (''accent'', accent),
                             (''voice'', voice),
                             (''speed'', speed),
                             (''sample_rate'', JInt 24000),
                             (''format'', JStr ''wav'')])) 200, st1)))))"

section \<open>The single-voice server, \<^verbatim>\<open>app.py\<close>\<close>

definition initialize_pipeline ::
  "(string \<Rightarrow> pyexn + 's engine) \<Rightarrow> 's app_state \<Rightarrow> bool \<times> 's app_state" where
  "initialize_pipeline KPipeline st =
     (case KPipeline ''b'' of
        Inl e \<Rightarrow> (False, st)
      | Inr p \<Rightarrow> (True, st\<lparr>pipeline := Some p\<rparr>))"

definition app_request_data :: "request \<Rightarrow> (json \<times> json) step" where
  "app_request_data req =
     attempt (get_json req) (\<lambda>data.
       if \<not> truthy data then Return (error_response ''Missing text parameter'' 400)
       else attempt (py_in ''text'' data) (\<lambda>has_text.
         if \<not> has_text then Return (error_response ''Missing text parameter'' 400)
         else attempt (py_getitem data ''text'') (\<lambda>text.
           attempt (py_get data ''speed'' (JFloat 1)) (\<lambda>speed.
             Continue (text, speed)))))"

text \<open>
  The block "Validate parameters" of \<^verbatim>\<open>text_to_speech\<close> in \<^verbatim>\<open>app.py\<close>: empty text, text
  length, then \<^verbatim>\<open>speed < 0.5 or speed > 2.0\<close>, whose second comparison runs only when the
  first is false.
\<close>

definition app_tts_validate :: "json \<Rightarrow> json \<Rightarrow> string step" where
  "app_tts_validate text speed =
     (case text of
        JStr t \<Rightarrow>
          if strip t = [] then Return (error_response ''Text cannot be empty'' 400)
          else if length t > 5000 then
            Return (error_response ''Text too long (max 5000 characters)'' 400)
          else attempt (py_less speed (1 / 2)) (\<lambda>too_slow.
            if too_slow then Return (error_response ''Speed must be between 0.5 and 2.0'' 400)
            else attempt (py_greater speed 2) (\<lambda>too_fast.
              if too_fast then Return (error_response ''Speed must be between 0.5 and 2.0'' 400)
              else Continue t))
      | _ \<Rightarrow> Raise AttributeError)"

definition app_text_to_speech ::
  "'s externals \<Rightarrow> request \<Rightarrow> 's app_state \<Rightarrow> response \<times> 's app_state" where
  "app_text_to_speech ext req st =
     (case pipeline st of
        None \<Rightarrow> (error_response ''TTS pipeline not initialized'' 500, st)
      | Some p \<Rightarrow>
          (case app_request_data req of
             Raise e \<Rightarrow> (caught e, st)
           | Return r \<Rightarrow> (r, st)
           | Continue (text, speed) \<Rightarrow>
               (case app_tts_validate text speed of
                  Raise e \<Rightarrow> (caught e, st)
                | Return r \<Rightarrow> (r, st)
                | Continue t \<Rightarrow>
                    (case synthesize p t (JStr VOICE) speed st of
                       (Raise e, st1) \<Rightarrow> (caught e, st1)
                     | (Return r, st1) \<Rightarrow> (r, st1)
                     | (Continue audio, st1) \<Rightarrow> send_wav_file ext audio VOICE st1))))"

section \<open>Sample collaborators\<close>

text \<open>
  Concrete collaborators on which the handlers are run below: an engine that yields two
  chunks for every text, an engine that yields no chunk, an encoder that writes one byte
  per sample, and the request object of Flask, which refuses the assignment to \<^verbatim>\<open>json\<close>.
\<close>

definition sample_engine :: "int engine" where
  "sample_engine text voice speed = Inr [(text, ''p1'', [1, 2]), (text, ''p2'', [3])]"

definition silent_engine :: "int engine" where
  "silent_engine text voice speed = Inr []"

definition sample_ext :: "int externals" where
  "sample_ext =
     \<lparr>sf_write = (\<lambda>audio rate. Inr (map (\<lambda>x. CHR ''w'') audio)),
      b64encode = (\<lambda>bytes. bytes),
      uuid4_hex = ''0123456789abcdef0123456789abcdef'',
      now_isoformat = ''2024-01-01T00:00:00'',
      float_repr = (\<lambda>q. ''float''),
      json_attr_assign = Some AttributeError\<rparr>"

definition sample_state :: "int kakora_state" where
  "sample_state =
     \<lparr>tmp_files = [], engine_calls = [],
      pipelines = [(''british'', sample_engine), (''american'', sample_engine)]\<rparr>"

definition sample_app_state :: "int app_state" where
  "sample_app_state = \<lparr>tmp_files = [], engine_calls = [], pipeline = Some sample_engine\<rparr>"

definition silent_state :: "int kakora_state" where
  "silent_state =
     \<lparr>tmp_files = [], engine_calls = [], pipelines = [(''british'', silent_engine)]\<rparr>"

definition silent_app_state :: "int app_state" where
  "silent_app_state = \<lparr>tmp_files = [], engine_calls = [], pipeline = Some silent_engine\<rparr>"

definition hi_request :: request where
  "hi_request = \<lparr>get_json = Inr (JObj [(''text'', JStr ''hi'')])\<rparr>"

definition empty_request :: request where
  "empty_request = \<lparr>get_json = Inr (JObj [])\<rparr>"

definition long_text :: string where
  "long_text = replicate 5001 (CHR ''a'')"

section \<open>Basic facts\<close>

lemmas sample_defs =
  sample_engine_def silent_engine_def sample_ext_def sample_state_def sample_app_state_def
  silent_state_def silent_app_state_def

lemma strip_empty_iff: "strip s = [] \<longleftrightarrow> (\<forall>c \<in> set s. is_space c)"
proof
  assume "strip s = []"
  then have "\<forall>c \<in> set (dropWhile is_space s). is_space c"
    by (simp add: strip_def dropWhile_eq_Nil_conv)
  then have "dropWhile is_space s = []"
    using hd_dropWhile [of is_space s] by (cases "dropWhile is_space s") auto
  then show "\<forall>c \<in> set s. is_space c"
    by (simp add: dropWhile_eq_Nil_conv)
next
  assume "\<forall>c \<in> set s. is_space c"
  then show "strip s = []"
    by (auto simp: strip_def dest: set_dropWhileD)
qed

lemma strip_hi: "strip ''hi'' = ''hi''"
  by (simp add: strip_def is_space_def)

lemma text_key_present: "map_of kv k = Some v \<Longrightarrow> kv \<noteq> [] \<and> k \<in> fst ` set kv"
  by (auto dest: map_of_SomeD intro: rev_image_eqI)

text \<open>A JSON object with a \<^verbatim>\<open>text\<close> key passes the block "Get request data".\<close>

lemma kakora_request_data_object:
  assumes "get_json req = Inr (JObj kv)" and "map_of kv ''text'' = Some text"
  shows "kakora_request_data req =
           Continue (text,
             (case map_of kv ''accent'' of None \<Rightarrow> JStr ''british'' | Some a \<Rightarrow> a),
             (case map_of kv ''voice'' of None \<Rightarrow> JStr ''af_heart'' | Some v \<Rightarrow> v),
             (case map_of kv ''speed'' of None \<Rightarrow> JFloat 1 | Some s \<Rightarrow> s))"
  using assms text_key_present [OF assms(2)]
  by (simp add: kakora_request_data_def)

lemma app_request_data_object:
  assumes "get_json req = Inr (JObj kv)" and "map_of kv ''text'' = Some text"
  shows "app_request_data req =
           Continue (text, (case map_of kv ''speed'' of None \<Rightarrow> JFloat 1 | Some s \<Rightarrow> s))"
  using assms text_key_present [OF assms(2)]
  by (simp add: app_request_data_def)

lemma final_audio_concat:
  "audio_segments \<noteq> [] \<Longrightarrow> final_audio audio_segments = concat audio_segments"
  by (cases audio_segments; cases "tl audio_segments") (auto simp: final_audio_def)

text \<open>The synthesis block and the file block as one case distinction each.\<close>

lemma synthesize_cases:
  "synthesize engine text voice speed st =
     (case engine text voice speed of
        Inl e \<Rightarrow> Raise e
      | Inr generator \<Rightarrow>
          if generator = [] then Return (error_response ''No audio generated'' 500)
          else Continue (concat (map (\<lambda>(gs, ps, audio). audio) generator)),
      st\<lparr>engine_calls := engine_calls st @ [(text, voice, speed)]\<rparr>)"
  by (simp add: synthesize_def Let_def final_audio_concat split: sum.splits)

lemma send_wav_file_cases:
  "send_wav_file ext audio label st =
     (case sf_write ext audio 24000 of
        Inl e \<Rightarrow> (caught e, st\<lparr>tmp_files := tmp_files st @ [[]]\<rparr>)
      | Inr wav \<Rightarrow>
          (Response (SendFile (length (tmp_files st)) ''audio/wav'' True
             (''kokoro_'' @ label @ ''_'' @ take 8 (uuid4_hex ext) @ ''.wav'')) 200,
           st\<lparr>tmp_files := tmp_files st @ [wav]\<rparr>))"
  by (simp add: send_wav_file_def Let_def split: sum.splits)

lemmas eval_defs =
  kakora_text_to_speech_def kakora_text_to_speech_base64_def kakora_request_data_def
  kakora_tts_validate_def kakora_base64_validate_def british_tts_def
  app_text_to_speech_def app_request_data_def app_tts_validate_def
  synthesize_cases send_wav_file_cases error_response_def caught_def
  py_less_def py_greater_def

lemma long_text_facts: "length long_text = 5001" "strip long_text \<noteq> []"
  by (simp_all add: long_text_def strip_empty_iff is_space_def)

lemma sample_pool_keys:
  "py_str_list [''british'', ''american''] = ''['british', 'american']''"
  by (simp add: py_str_list_def py_repr_str_def repr_char_def Let_def)

lemma status_simps:
  "status_code (caught e) = 500" "status_code (error_response m c) = c"
  by (simp_all add: caught_def error_response_def)

lemma attempt_Return: "attempt m f = Return r \<longleftrightarrow> (\<exists>x. m = Inr x \<and> f x = Return r)"
  by (cases m) auto

text \<open>Every \<^verbatim>\<open>return\<close> of a validation block is a response of status 400.\<close>

lemma kakora_request_data_Return:
  "kakora_request_data req = Return r \<Longrightarrow> r = error_response ''Missing text parameter'' 400"
  by (auto simp: kakora_request_data_def attempt_Return split: if_splits)

lemma app_request_data_Return:
  "app_request_data req = Return r \<Longrightarrow> r = error_response ''Missing text parameter'' 400"
  by (auto simp: app_request_data_def attempt_Return split: if_splits)

lemma kakora_tts_validate_Return:
  "kakora_tts_validate ext pool tx accent = Return r \<Longrightarrow> status_code r = 400"
  by (auto simp: kakora_tts_validate_def attempt_Return error_response_def
      split: json.splits if_splits option.splits)

lemma app_tts_validate_Return:
  "app_tts_validate tx speed = Return r \<Longrightarrow> status_code r = 400"
  by (auto simp: app_tts_validate_def attempt_Return error_response_def
      split: json.splits if_splits option.splits)

section \<open>Audio assembly\<close>

text \<open>
  C5. For a non-empty list of audio segments the final waveform is the concatenation of
  the segments in their order; the branch for exactly one segment gives the concatenation
  of that one-element list; and the synthesis block hands on the concatenation of the
  chunks that the engine yielded, in the order in which it yielded them.
\<close>

theorem waveform_is_concatenation:
  "audio_segments \<noteq> [] \<Longrightarrow>
     final_audio audio_segments = concat audio_segments \<and>
     (length audio_segments = 1 \<longrightarrow> audio_segments ! 0 = concat audio_segments) \<and>
     (engine text voice speed = Inr generator \<and>
      map (\<lambda>(gs, ps, audio). audio) generator = audio_segments \<longrightarrow>
      fst (synthesize engine text voice speed st) = Continue (concat audio_segments))"
proof (intro conjI impI)
  assume ne: "audio_segments \<noteq> []"
  show "final_audio audio_segments = concat audio_segments"
    using ne by (rule final_audio_concat)
  show "audio_segments ! 0 = concat audio_segments" if "length audio_segments = 1"
    using that by (cases audio_segments) simp_all
  show "fst (synthesize engine text voice speed st) = Continue (concat audio_segments)"
    if "engine text voice speed = Inr generator \<and>
        map (\<lambda>(gs, ps, audio). audio) generator = audio_segments"
    using that ne by (auto simp: synthesize_cases)
qed

theorem waveform_is_concatenation_witness:
  "[[1, 2], [3 :: int]] \<noteq> [] \<and>
   final_audio [[1, 2], [3 :: int]] = [1, 2, 3] \<and>
   fst (synthesize sample_engine ''hi'' (JStr ''af_heart'') (JFloat 1) sample_state)
     = Continue [1, 2, 3]"
  using waveform_is_concatenation [of "[[1, 2], [3 :: int]]" sample_engine "''hi''"
      "JStr ''af_heart''" "JFloat 1" "[(''hi'', ''p1'', [1, 2]), (''hi'', ''p2'', [3])]" sample_state]
  by (simp add: sample_engine_def)

section \<open>The engine pool is read-only while requests are served\<close>

lemma kakora_text_to_speech_pipelines:
  "pipelines (snd (kakora_text_to_speech ext req st)) = pipelines st"
  by (auto simp: kakora_text_to_speech_def synthesize_cases send_wav_file_cases
      split: step.splits sum.splits prod.splits)

lemma kakora_text_to_speech_base64_pipelines:
  "pipelines (snd (kakora_text_to_speech_base64 ext req st)) = pipelines st"
  by (auto simp: kakora_text_to_speech_base64_def synthesize_cases
      split: step.splits sum.splits prod.splits)

lemma british_tts_pipelines:
  "pipelines (snd (british_tts ext req st)) = pipelines st"
  by (auto simp: british_tts_def kakora_text_to_speech_pipelines
      split: sum.splits option.splits if_splits)

text \<open>
  C9. Every request handler of the multi-voice server (health, accents, voices, tts,
  tts/british, tts_base64) returns with the pool \<^verbatim>\<open>pipelines\<close> it found: the handlers
  list its keys, test a key and look an engine up, and never write to it.
\<close>

theorem handlers_leave_pool_unchanged:
  "pipelines (snd (kakora_health_check ext st)) = pipelines st \<and>
   pipelines (snd (get_accents st)) = pipelines st \<and>
   pipelines (snd (get_voices st)) = pipelines st \<and>
   pipelines (snd (kakora_text_to_speech ext req st)) = pipelines st \<and>
   pipelines (snd (british_tts ext req st)) = pipelines st \<and>
   pipelines (snd (kakora_text_to_speech_base64 ext req st)) = pipelines st"
  by (simp add: kakora_health_check_def get_accents_def get_voices_def
      kakora_text_to_speech_pipelines british_tts_pipelines
      kakora_text_to_speech_base64_pipelines)

section \<open>An empty synthesis\<close>

text \<open>
  C6. In each of the three synthesis handlers, a request that has passed the request-data
  and validation blocks and whose engine yields no chunk is answered with the error
  \<^verbatim>\<open>No audio generated\<close> and status 500; the only effect is the recorded engine call, so
  no file is written and no audio is returned.
\<close>

theorem empty_synthesis_is_internal_error:
  "(kakora_request_data req = Continue (tx, accent, voice, speed) \<and>
    kakora_tts_validate ext (pipelines st) tx accent = Continue (t, p) \<and>
    p t voice speed = Inr [] \<longrightarrow>
      kakora_text_to_speech ext req st =
        (error_response ''No audio generated'' 500,
         st\<lparr>engine_calls := engine_calls st @ [(t, voice, speed)]\<rparr>)) \<and>
   (kakora_request_data req = Continue (tx, accent, voice, speed) \<and>
    kakora_base64_validate ext (pipelines st) tx accent = Continue (t, p) \<and>
    p t voice speed = Inr [] \<longrightarrow>
      kakora_text_to_speech_base64 ext req st =
        (error_response ''No audio generated'' 500,
         st\<lparr>engine_calls := engine_calls st @ [(t, voice, speed)]\<rparr>)) \<and>
   (pipeline ast = Some p \<and>
    app_request_data req = Continue (tx, speed) \<and>
    app_tts_validate tx speed = Continue t \<and>
    p t (JStr VOICE) speed = Inr [] \<longrightarrow>
      app_text_to_speech ext req ast =
        (error_response ''No audio generated'' 500,
         ast\<lparr>engine_calls := engine_calls ast @ [(t, JStr VOICE, speed)]\<rparr>))"
  by (simp add: kakora_text_to_speech_def kakora_text_to_speech_base64_def
      app_text_to_speech_def synthesize_cases)

theorem empty_synthesis_is_internal_error_witness:
  "kakora_request_data hi_request
     = Continue (JStr ''hi'', JStr ''british'', JStr ''af_heart'', JFloat 1) \<and>
   kakora_tts_validate sample_ext (pipelines silent_state) (JStr ''hi'') (JStr ''british'')
     = Continue (''hi'', silent_engine) \<and>
   kakora_base64_validate sample_ext (pipelines silent_state) (JStr ''hi'') (JStr ''british'')
     = Continue (''hi'', silent_engine) \<and>
   pipeline silent_app_state = Some silent_engine \<and>
   app_request_data hi_request = Continue (JStr ''hi'', JFloat 1) \<and>
   app_tts_validate (JStr ''hi'') (JFloat 1) = Continue ''hi'' \<and>
   silent_engine ''hi'' (JStr ''af_heart'') (JFloat 1) = Inr [] \<and>
   status_code (fst (kakora_text_to_speech sample_ext hi_request silent_state)) = 500 \<and>
   status_code (fst (kakora_text_to_speech_base64 sample_ext hi_request silent_state)) = 500 \<and>
   status_code (fst (app_text_to_speech sample_ext hi_request silent_app_state)) = 500"
proof -
  have rd: "kakora_request_data hi_request
      = Continue (JStr ''hi'', JStr ''british'', JStr ''af_heart'', JFloat 1)"
    by (simp add: hi_request_def kakora_request_data_def)
  have v1: "kakora_tts_validate sample_ext (pipelines silent_state) (JStr ''hi'') (JStr ''british'')
      = Continue (''hi'', silent_engine)"
    by (simp add: kakora_tts_validate_def silent_state_def strip_hi)
  have v2: "kakora_base64_validate sample_ext (pipelines silent_state) (JStr ''hi'') (JStr ''british'')
      = Continue (''hi'', silent_engine)"
    by (simp add: kakora_base64_validate_def silent_state_def strip_hi)
  have ap: "pipeline silent_app_state = Some silent_engine"
    by (simp add: silent_app_state_def)
  have ard: "app_request_data hi_request = Continue (JStr ''hi'', JFloat 1)"
    by (simp add: hi_request_def app_request_data_def)
  have av: "app_tts_validate (JStr ''hi'') (JFloat 1) = Continue ''hi''"
    by (simp add: app_tts_validate_def strip_hi py_less_def py_greater_def)
  have en: "silent_engine ''hi'' (JStr ''af_heart'') (JFloat 1) = Inr []"
    by (simp add: silent_engine_def)
  note inst = empty_synthesis_is_internal_error
    [where req = hi_request and tx = "JStr ''hi''" and accent = "JStr ''british''"
       and voice = "JStr ''af_heart''" and speed = "JFloat 1" and t = "''hi''"
       and p = silent_engine and ext = sample_ext and st = silent_state
       and ast = silent_app_state]
  show ?thesis
    using inst rd v1 v2 ap ard av en by (simp add: VOICE_def error_response_def)
qed

section \<open>Temporary files of the file-download handlers\<close>

text \<open>
  C8, as the code has it. In both \<^verbatim>\<open>/tts\<close> handlers the list of temporary files only
  grows, by at most one file per request. A response of status 200 has created exactly one
  file, which holds the encoded bytes that \<^verbatim>\<open>send_file\<close> is given and is still on disk when
  the handler returns; a response of status 400 has changed nothing. Neither server deletes
  a file, and \<^verbatim>\<open>send_file\<close> only reads it.
\<close>

theorem tts_temp_file_stays_on_disk:
  "(\<exists>new. tmp_files (snd (kakora_text_to_speech ext req st)) = tmp_files st @ new \<and>
      length new \<le> 1) \<and>
   (status_code (fst (kakora_text_to_speech ext req st)) = 200 \<longrightarrow>
      (\<exists>audio wav name.
         sf_write ext audio 24000 = Inr wav \<and>
         tmp_files (snd (kakora_text_to_speech ext req st)) = tmp_files st @ [wav] \<and>
         fst (kakora_text_to_speech ext req st)
           = Response (SendFile (length (tmp_files st)) ''audio/wav'' True name) 200)) \<and>
   (status_code (fst (kakora_text_to_speech ext req st)) = 400 \<longrightarrow>
      snd (kakora_text_to_speech ext req st) = st) \<and>
   (\<exists>new. tmp_files (snd (app_text_to_speech ext req ast)) = tmp_files ast @ new \<and>
      length new \<le> 1) \<and>
   (status_code (fst (app_text_to_speech ext req ast)) = 200 \<longrightarrow>
      (\<exists>audio wav name.
         sf_write ext audio 24000 = Inr wav \<and>
         tmp_files (snd (app_text_to_speech ext req ast)) = tmp_files ast @ [wav] \<and>
         fst (app_text_to_speech ext req ast)
           = Response (SendFile (length (tmp_files ast)) ''audio/wav'' True name) 200)) \<and>
   (status_code (fst (app_text_to_speech ext req ast)) = 400 \<longrightarrow>
      snd (app_text_to_speech ext req ast) = ast)"
proof (intro conjI)
  show "\<exists>new. tmp_files (snd (kakora_text_to_speech ext req st)) = tmp_files st @ new \<and>
      length new \<le> 1"
    by (auto simp: kakora_text_to_speech_def synthesize_cases send_wav_file_cases
        split: step.splits sum.splits prod.splits if_splits)
  show "status_code (fst (kakora_text_to_speech ext req st)) = 200 \<longrightarrow>
      (\<exists>audio wav name.
         sf_write ext audio 24000 = Inr wav \<and>
         tmp_files (snd (kakora_text_to_speech ext req st)) = tmp_files st @ [wav] \<and>
         fst (kakora_text_to_speech ext req st)
           = Response (SendFile (length (tmp_files st)) ''audio/wav'' True name) 200)"
    by (auto simp: kakora_text_to_speech_def synthesize_cases send_wav_file_cases status_simps
        dest!: kakora_request_data_Return kakora_tts_validate_Return
        split: step.splits sum.splits prod.splits if_splits)
  show "status_code (fst (kakora_text_to_speech ext req st)) = 400 \<longrightarrow>
      snd (kakora_text_to_speech ext req st) = st"
    by (auto simp: kakora_text_to_speech_def synthesize_cases send_wav_file_cases status_simps
        split: step.splits sum.splits prod.splits if_splits)
  show "\<exists>new. tmp_files (snd (app_text_to_speech ext req ast)) = tmp_files ast @ new \<and>
      length new \<le> 1"
    by (auto simp: app_text_to_speech_def synthesize_cases send_wav_file_cases
        split: step.splits sum.splits prod.splits if_splits option.splits)
  show "status_code (fst (app_text_to_speech ext req ast)) = 200 \<longrightarrow>
      (\<exists>audio wav name.
         sf_write ext audio 24000 = Inr wav \<and>
         tmp_files (snd (app_text_to_speech ext req ast)) = tmp_files ast @ [wav] \<and>
         fst (app_text_to_speech ext req ast)
           = Response (SendFile (length (tmp_files ast)) ''audio/wav'' True name) 200)"
    by (auto simp: app_text_to_speech_def synthesize_cases send_wav_file_cases status_simps
        dest!: app_request_data_Return app_tts_validate_Return
        split: step.splits sum.splits prod.splits if_splits option.splits)
  show "status_code (fst (app_text_to_speech ext req ast)) = 400 \<longrightarrow>
      snd (app_text_to_speech ext req ast) = ast"
    by (auto simp: app_text_to_speech_def synthesize_cases send_wav_file_cases status_simps
        split: step.splits sum.splits prod.splits if_splits option.splits)
qed

text \<open>
  C8 as stated says that no request leaves a temporary file behind. A successful request to
  the multi-voice \<^verbatim>\<open>/tts\<close> on a disk without temporary files ends with one.
\<close>

theorem temp_file_left_behind:
  "tmp_files sample_state = [] \<and>
   kakora_text_to_speech sample_ext hi_request sample_state
     = (Response (SendFile 0 ''audio/wav'' True ''kokoro_british_01234567.wav'') 200,
        sample_state\<lparr>tmp_files := [''www''],
                      engine_calls := [(''hi'', JStr ''af_heart'', JFloat 1)]\<rparr>)"
  by (simp add: eval_defs sample_defs hi_request_def strip_hi)

theorem tts_temp_file_stays_on_disk_witness:
  "status_code (fst (app_text_to_speech sample_ext hi_request sample_app_state)) = 200 \<and>
   tmp_files (snd (app_text_to_speech sample_ext hi_request sample_app_state))
     = tmp_files sample_app_state @ [''www''] \<and>
   status_code (fst (kakora_text_to_speech sample_ext empty_request sample_state)) = 400 \<and>
   snd (kakora_text_to_speech sample_ext empty_request sample_state) = sample_state"
proof -
  have ok: "app_text_to_speech sample_ext hi_request sample_app_state
      = (Response (SendFile 0 ''audio/wav'' True ''kokoro_af_heart_01234567.wav'') 200,
         sample_app_state\<lparr>tmp_files := [''www''],
                           engine_calls := [(''hi'', JStr ''af_heart'', JFloat 1)]\<rparr>)"
    by (simp add: eval_defs sample_defs hi_request_def strip_hi VOICE_def)
  have rejected: "status_code (fst (kakora_text_to_speech sample_ext empty_request sample_state)) = 400"
    by (simp add: eval_defs empty_request_def)
  show ?thesis
    using tts_temp_file_stays_on_disk [of sample_ext hi_request sample_state sample_app_state]
      tts_temp_file_stays_on_disk [of sample_ext empty_request sample_state sample_app_state]
      ok rejected
    by (simp add: sample_app_state_def)
qed

section \<open>Request validation\<close>

text \<open>
  What the multi-voice \<^verbatim>\<open>/tts\<close> does with a missing text and with a text of whitespace:
  a status 400 without any effect, whatever the other fields are.
\<close>

lemma kakora_tts_missing_text:
  assumes "get_json req = Inr data"
    and "data = JNull \<or> (\<exists>kv. data = JObj kv \<and> ''text'' \<notin> fst ` set kv)"
  shows "kakora_text_to_speech ext req st = (error_response ''Missing text parameter'' 400, st)"
  using assms by (auto simp: kakora_text_to_speech_def kakora_request_data_def)

lemma kakora_tts_empty_text:
  assumes "get_json req = Inr (JObj kv)"
    and "map_of kv ''text'' = Some (JStr t)"
    and "\<forall>c \<in> set t. is_space c"
  shows "kakora_text_to_speech ext req st = (error_response ''Text cannot be empty'' 400, st)"
  using assms kakora_request_data_object [OF assms(1) assms(2)] strip_empty_iff [of t]
  by (simp add: kakora_text_to_speech_def kakora_tts_validate_def)

text \<open>
  The speed rule of \<^verbatim>\<open>app.py\<close>: a numeric speed below 0.5 or above 2.0 is rejected with
  status 400 and the engine is not called; from 0.5 to 2.0, both inclusive, the engine is
  called with that speed.
\<close>

lemma app_tts_speed_rule:
  assumes "pipeline ast = Some p"
    and "get_json req = Inr (JObj kv)"
    and "map_of kv ''text'' = Some (JStr t)"
    and "strip t \<noteq> []" and "length t \<le> 5000"
    and "speed = (case map_of kv ''speed'' of None \<Rightarrow> JFloat 1 | Some s \<Rightarrow> s)"
    and "py_number speed = Some q"
  shows "(q < 1 / 2 \<or> 2 < q \<longrightarrow>
           app_text_to_speech ext req ast
             = (error_response ''Speed must be between 0.5 and 2.0'' 400, ast)) \<and>
         (1 / 2 \<le> q \<and> q \<le> 2 \<longrightarrow>
           engine_calls (snd (app_text_to_speech ext req ast))
             = engine_calls ast @ [(t, JStr VOICE, speed)])"
  using assms app_request_data_object [OF assms(2) assms(3)]
  by (auto simp: app_text_to_speech_def app_tts_validate_def py_less_def py_greater_def
      synthesize_cases send_wav_file_cases split: sum.splits)

text \<open>
  C1. The multi-voice server has no speed rule. Its \<^verbatim>\<open>/tts\<close> answers a request of speed
  5.0 with the audio file, having called the engine with speed 5.0, and its
  \<^verbatim>\<open>/tts_base64\<close> does the same with speed 0.25.
\<close>

theorem kakora_speed_not_validated:
  "kakora_text_to_speech sample_ext
     \<lparr>get_json = Inr (JObj [(''text'', JStr ''hi''), (''speed'', JFloat 5)])\<rparr> sample_state
   = (Response (SendFile 0 ''audio/wav'' True ''kokoro_british_01234567.wav'') 200,
      sample_state\<lparr>tmp_files := [''www''],
                    engine_calls := [(''hi'', JStr ''af_heart'', JFloat 5)]\<rparr>) \<and>
   kakora_text_to_speech_base64 sample_ext
     \<lparr>get_json = Inr (JObj [(''text'', JStr ''hi''), (''speed'', JFloat (1 / 4))])\<rparr> sample_state
   = (Response (Jsonify (JObj
         [(''audio_base64'', JStr ''www''), (''accent'', JStr ''british''),
          (''voice'', JStr ''af_heart''), (''speed'', JFloat (1 / 4)),
          (''sample_rate'', JInt 24000), (''format'', JStr ''wav'')])) 200,
      sample_state\<lparr>engine_calls := [(''hi'', JStr ''af_heart'', JFloat (1 / 4))]\<rparr>)"
  by (simp add: eval_defs sample_defs strip_hi)

text \<open>
  The length rule of the two \<^verbatim>\<open>/tts\<close> handlers: a text of more than 5000 characters that
  is not all whitespace is rejected with status 400, without any effect.
\<close>

lemma tts_text_length_rule:
  assumes "get_json req = Inr (JObj kv)"
    and "map_of kv ''text'' = Some (JStr t)"
    and "strip t \<noteq> []" and "5000 < length t"
  shows "kakora_text_to_speech ext req st
           = (error_response ''Text too long (max 5000 characters)'' 400, st)"
    and "pipeline ast = Some p \<Longrightarrow> app_text_to_speech ext req ast
           = (error_response ''Text too long (max 5000 characters)'' 400, ast)"
  using assms kakora_request_data_object [OF assms(1) assms(2)]
    app_request_data_object [OF assms(1) assms(2)]
  by (simp_all add: kakora_text_to_speech_def kakora_tts_validate_def
      app_text_to_speech_def app_tts_validate_def)

text \<open>
  C2. The multi-voice \<^verbatim>\<open>/tts_base64\<close> has no length rule: it answers a text of 5001
  characters with status 200, having called the engine with the whole text.
\<close>

theorem kakora_base64_text_length_not_validated:
  "length long_text = 5001 \<and>
   kakora_text_to_speech_base64 sample_ext
     \<lparr>get_json = Inr (JObj [(''text'', JStr long_text)])\<rparr> sample_state
   = (Response (Jsonify (JObj
         [(''audio_base64'', JStr ''www''), (''accent'', JStr ''british''),
          (''voice'', JStr ''af_heart''), (''speed'', JFloat 1),
          (''sample_rate'', JInt 24000), (''format'', JStr ''wav'')])) 200,
      sample_state\<lparr>engine_calls := [(long_text, JStr ''af_heart'', JFloat 1)]\<rparr>)"
  by (simp add: eval_defs sample_defs long_text_facts)

text \<open>
  The accent rule of the multi-voice \<^verbatim>\<open>/tts\<close>: for an accent string that is not a key of
  the pool the message lists the keys of the pool, in the order of the pool.
\<close>

lemma kakora_tts_unknown_accent_lists_pool:
  assumes "get_json req = Inr (JObj kv)"
    and "map_of kv ''text'' = Some (JStr t)"
    and "strip t \<noteq> []" and "length t \<le> 5000"
    and "map_of kv ''accent'' = Some (JStr a)"
    and "a \<notin> fst ` set (pipelines st)"
  shows "kakora_text_to_speech ext req st
           = (error_response (''Accent '' @ [CHR 0x22] @ a @ [CHR 0x22]
                @ '' not available. Available: '' @ py_str_list (map fst (pipelines st))) 400, st)"
proof -
  have "map_of (pipelines st) a = None"
    using assms(6) by (simp add: map_of_eq_None_iff)
  then show ?thesis
    using assms kakora_request_data_object [OF assms(1) assms(2)]
    by (simp add: kakora_text_to_speech_def kakora_tts_validate_def)
qed

text \<open>
  C3. The message of the multi-voice \<^verbatim>\<open>/tts_base64\<close> for an accent that is not in the pool
  names the accent and lists no key of the pool, where \<^verbatim>\<open>/tts\<close> lists them for the same
  request.
\<close>

theorem kakora_base64_unknown_accent_message:
  "kakora_text_to_speech_base64 sample_ext
     \<lparr>get_json = Inr (JObj [(''text'', JStr ''hi''), (''accent'', JStr ''klingon'')])\<rparr> sample_state
   = (error_response (''Accent '' @ [CHR 0x22] @ ''klingon'' @ [CHR 0x22] @ '' not available'') 400,
      sample_state) \<and>
   kakora_text_to_speech sample_ext
     \<lparr>get_json = Inr (JObj [(''text'', JStr ''hi''), (''accent'', JStr ''klingon'')])\<rparr> sample_state
   = (error_response (''Accent '' @ [CHR 0x22] @ ''klingon'' @ [CHR 0x22]
        @ '' not available. Available: ['british', 'american']'') 400,
      sample_state)"
  by (simp add: eval_defs sample_defs strip_hi sample_pool_keys)

text \<open>
  C7. The claimed order has the speed rule before the accent rule. The multi-voice \<^verbatim>\<open>/tts\<close>
  answers a request whose speed is 9 and whose accent is not in the pool with the accent
  error, and a request whose speed is 9 and whose accent is in the pool with the audio file,
  having called the engine with speed 9.
\<close>

theorem kakora_tts_accent_rule_without_speed_rule:
  "kakora_text_to_speech sample_ext
     \<lparr>get_json = Inr (JObj [(''text'', JStr ''hi''), (''speed'', JInt 9),
                             (''accent'', JStr ''klingon'')])\<rparr> sample_state
   = (error_response (''Accent '' @ [CHR 0x22] @ ''klingon'' @ [CHR 0x22]
        @ '' not available. Available: ['british', 'american']'') 400,
      sample_state) \<and>
   kakora_text_to_speech sample_ext
     \<lparr>get_json = Inr (JObj [(''text'', JStr ''hi''), (''speed'', JInt 9)])\<rparr> sample_state
   = (Response (SendFile 0 ''audio/wav'' True ''kokoro_british_01234567.wav'') 200,
      sample_state\<lparr>tmp_files := [''www''],
                    engine_calls := [(''hi'', JStr ''af_heart'', JInt 9)]\<rparr>)"
  by (simp add: eval_defs sample_defs strip_hi sample_pool_keys)

section \<open>The dedicated British endpoint\<close>

text \<open>
  When the request object refuses the assignment \<^verbatim>\<open>request.json = data\<close>, as the request
  object of Flask does, \<^verbatim>\<open>british_tts\<close> answers every request with status 500 and has
  no effect: the exception is raised before \<^verbatim>\<open>text_to_speech\<close> is called.
\<close>

lemma british_tts_assignment_raises:
  "json_attr_assign ext = Some e \<Longrightarrow>
     status_code (fst (british_tts ext req st)) = 500 \<and> snd (british_tts ext req st) = st"
  by (auto simp: british_tts_def status_simps split: sum.splits)

text \<open>
  With a request object that accepted the assignment, \<^verbatim>\<open>british_tts\<close> on a JSON object
  would be \<^verbatim>\<open>text_to_speech\<close> on that object with its accent set to \<^verbatim>\<open>british\<close>.
\<close>

lemma british_tts_if_assignment_accepted:
  assumes "json_attr_assign ext = None" and "get_json req = Inr (JObj kv)"
  shows "british_tts ext req st
           = kakora_text_to_speech ext
               \<lparr>get_json = Inr (JObj (dict_set ''accent'' (JStr ''british'') kv))\<rparr> st"
proof (cases "kv = []")
  case True
  with assms show ?thesis
    by (simp add: british_tts_def kakora_text_to_speech_def kakora_request_data_def)
next
  case False
  with assms have "british_tts ext req st
      = kakora_text_to_speech ext
          (req\<lparr>get_json := Inr (JObj (dict_set ''accent'' (JStr ''british'') kv))\<rparr>) st"
    by (simp add: british_tts_def)
  then show ?thesis
    by (cases req) simp
qed

text \<open>
  C4. Under Flask \<^verbatim>\<open>/tts/british\<close> answers the request \<^verbatim>\<open>{"text": "hi"}\<close> with status 500
  and the caught \<^verbatim>\<open>AttributeError\<close>, where \<^verbatim>\<open>/tts\<close> answers the same request with its
  accent set to \<^verbatim>\<open>british\<close> with the audio file.
\<close>

theorem british_tts_fails_on_json_assignment:
  "json_attr_assign sample_ext = Some AttributeError \<and>
   british_tts sample_ext hi_request sample_state = (caught AttributeError, sample_state) \<and>
   kakora_text_to_speech sample_ext
     \<lparr>get_json = Inr (JObj [(''text'', JStr ''hi''), (''accent'', JStr ''british'')])\<rparr> sample_state
   = (Response (SendFile 0 ''audio/wav'' True ''kokoro_british_01234567.wav'') 200,
      sample_state\<lparr>tmp_files := [''www''],
                    engine_calls := [(''hi'', JStr ''af_heart'', JFloat 1)]\<rparr>)"
  by (simp add: eval_defs sample_defs hi_request_def strip_hi)

section \<open>The default voice\<close>

text \<open>
  C10. For a request to the multi-voice server that is a JSON object without a \<^verbatim>\<open>voice\<close>
  key and that passes validation, \<^verbatim>\<open>/tts\<close> and \<^verbatim>\<open>/tts_base64\<close> call the engine with the
  voice \<^verbatim>\<open>af_heart\<close>, a successful \<^verbatim>\<open>/tts_base64\<close> response echoes \<^verbatim>\<open>af_heart\<close>, and
  \<^verbatim>\<open>/voices\<close> reports \<^verbatim>\<open>af_allison\<close> as the default.
\<close>

theorem omitted_voice_is_af_heart:
  assumes "get_json req = Inr (JObj kv)"
    and "map_of kv ''voice'' = None"
    and "map_of kv ''text'' = Some (JStr t)"
    and "strip t \<noteq> []"
    and "pool_lookup (case map_of kv ''accent'' of None \<Rightarrow> JStr ''british'' | Some a \<Rightarrow> a)
           (pipelines st) = Inr (Some p)"
    and "speed = (case map_of kv ''speed'' of None \<Rightarrow> JFloat 1 | Some s \<Rightarrow> s)"
  shows "(length t \<le> 5000 \<longrightarrow>
            engine_calls (snd (kakora_text_to_speech ext req st))
              = engine_calls st @ [(t, JStr ''af_heart'', speed)]) \<and>
         engine_calls (snd (kakora_text_to_speech_base64 ext req st))
           = engine_calls st @ [(t, JStr ''af_heart'', speed)] \<and>
         (\<forall>b. fst (kakora_text_to_speech_base64 ext req st) = Response (Jsonify (JObj b)) 200
            \<longrightarrow> map_of b ''voice'' = Some (JStr ''af_heart'')) \<and>
         (\<exists>b. fst (get_voices st) = Response (Jsonify (JObj b)) 200 \<and>
            map_of b ''default'' = Some (JStr ''af_allison''))"
proof -
  have rd: "kakora_request_data req =
      Continue (JStr t, (case map_of kv ''accent'' of None \<Rightarrow> JStr ''british'' | Some a \<Rightarrow> a),
        JStr ''af_heart'', speed)"
    using kakora_request_data_object [OF assms(1) assms(3)] assms(2) assms(6) by simp
  have tts: "length t \<le> 5000 \<Longrightarrow>
      engine_calls (snd (kakora_text_to_speech ext req st))
        = engine_calls st @ [(t, JStr ''af_heart'', speed)]"
    using assms(4) assms(5)
    by (simp add: kakora_text_to_speech_def rd kakora_tts_validate_def synthesize_cases
        send_wav_file_cases caught_def split: sum.splits)
  have b64: "kakora_text_to_speech_base64 ext req st =
      (case synthesize p t (JStr ''af_heart'') speed st of
         (Raise e, st1) \<Rightarrow> (caught e, st1)
       | (Return r, st1) \<Rightarrow> (r, st1)
       | (Continue audio, st1) \<Rightarrow>
           (case sf_write ext audio 24000 of
              Inl e \<Rightarrow> (caught e, st1)
            | Inr wav \<Rightarrow>
                (Response (Jsonify (JObj
                   [(''audio_base64'', JStr (b64encode ext wav)),
                    (''accent'', (case map_of kv ''accent'' of None \<Rightarrow> JStr ''british'' | Some a \<Rightarrow> a)),
                    (''voice'', JStr ''af_heart''),
                    (''speed'', speed),
                    (''sample_rate'', JInt 24000),
                    (''format'', JStr ''wav'')])) 200, st1)))"
    using assms(4) assms(5)
    by (simp add: kakora_text_to_speech_base64_def rd kakora_base64_validate_def)
  have calls: "engine_calls (snd (kakora_text_to_speech_base64 ext req st))
      = engine_calls st @ [(t, JStr ''af_heart'', speed)]"
    by (simp add: b64 synthesize_cases split: sum.splits)
  have echo: "\<forall>b. fst (kakora_text_to_speech_base64 ext req st) = Response (Jsonify (JObj b)) 200
      \<longrightarrow> map_of b ''voice'' = Some (JStr ''af_heart'')"
    by (auto simp: b64 synthesize_cases caught_def error_response_def split: sum.splits if_splits)
  have voices: "\<exists>b. fst (get_voices st) = Response (Jsonify (JObj b)) 200 \<and>
      map_of b ''default'' = Some (JStr ''af_allison'')"
    by (simp add: get_voices_def)
  from tts calls echo voices show ?thesis by blast
qed

theorem omitted_voice_is_af_heart_witness:
  "engine_calls (snd (kakora_text_to_speech sample_ext hi_request sample_state))
     = [(''hi'', JStr ''af_heart'', JFloat 1)] \<and>
   engine_calls (snd (kakora_text_to_speech_base64 sample_ext hi_request sample_state))
     = [(''hi'', JStr ''af_heart'', JFloat 1)] \<and>
   fst (kakora_text_to_speech_base64 sample_ext hi_request sample_state)
     = Response (Jsonify (JObj
         [(''audio_base64'', JStr ''www''), (''accent'', JStr ''british''),
          (''voice'', JStr ''af_heart''), (''speed'', JFloat 1),
          (''sample_rate'', JInt 24000), (''format'', JStr ''wav'')])) 200"
proof -
  have a1: "get_json hi_request = Inr (JObj [(''text'', JStr ''hi'')])"
    by (simp add: hi_request_def)
  have a2: "map_of [(''text'', JStr ''hi'')] ''voice'' = None" by simp
  have a3: "map_of [(''text'', JStr ''hi'')] ''text'' = Some (JStr ''hi'')" by simp
  have a4: "strip ''hi'' \<noteq> []" by (simp add: strip_hi)
  have a5: "pool_lookup (case map_of [(''text'', JStr ''hi'')] ''accent'' of
        None \<Rightarrow> JStr ''british'' | Some a \<Rightarrow> a) (pipelines sample_state) = Inr (Some sample_engine)"
    by (simp add: sample_state_def)
  have a6: "JFloat 1 = (case map_of [(''text'', JStr ''hi'')] ''speed'' of
        None \<Rightarrow> JFloat 1 | Some s \<Rightarrow> s)" by simp
  have full: "fst (kakora_text_to_speech_base64 sample_ext hi_request sample_state)
     = Response (Jsonify (JObj
         [(''audio_base64'', JStr ''www''), (''accent'', JStr ''british''),
          (''voice'', JStr ''af_heart''), (''speed'', JFloat 1),
          (''sample_rate'', JInt 24000), (''format'', JStr ''wav'')])) 200"
    by (simp add: kakora_text_to_speech_base64_def kakora_request_data_def hi_request_def
        kakora_base64_validate_def strip_hi synthesize_cases sample_defs)
  show ?thesis
    using omitted_voice_is_af_heart [OF a1 a2 a3 a4 a5 a6, of sample_ext] full
    by (simp add: sample_state_def)
qed

end
